theory Spec2Isabelle
  imports Main "HOL-Library.Word"
begin

section \<open>JavaScript strings\<close>

text \<open>
  A JavaScript string is a sequence of UTF-16 code units; \<open>length\<close>, \<open>endsWith\<close>,
  \<open>slice\<close>, \<open>includes\<close> and \<open>trim\<close> all work on code units. A literal of the source is
  written \<open>js ''...''\<close>.
\<close>

type_synonym js_string = "16 word list"

definition js :: "string \<Rightarrow> js_string" where
  "js s = map of_char s"

text \<open>\<open>!s\<close> on a string: only the empty string is falsy.\<close>

definition truthy_str :: "js_string \<Rightarrow> bool" where
  "truthy_str s = (s \<noteq> [])"

text \<open>\<open>!o.f\<close> on an object field that may be absent (\<open>undefined\<close>).\<close>

definition truthy_field :: "js_string option \<Rightarrow> bool" where
  "truthy_field f = (case f of None \<Rightarrow> False | Some s \<Rightarrow> truthy_str s)"

text \<open>\<open>s.endsWith('/')\<close> and \<open>s.slice(0, -1)\<close>.\<close>

definition endsWith_slash :: "js_string \<Rightarrow> bool" where
  "endsWith_slash s = (s \<noteq> [] \<and> last s = of_char CHR ''/'')"

definition slice_0_m1 :: "js_string \<Rightarrow> js_string" where
  "slice_0_m1 s = butlast s"

text \<open>\<open>s.includes('@')\<close>.\<close>

definition includes_at :: "js_string \<Rightarrow> bool" where
  "includes_at s = (of_char CHR ''@'' \<in> set s)"

text \<open>
  \<open>s.trim()\<close> removes white space and line terminators from both ends: U+0009 to U+000D,
  U+0020, U+00A0, U+1680, U+2000 to U+200A, U+2028, U+2029, U+202F, U+205F, U+3000, U+FEFF.
\<close>

definition is_js_space :: "16 word \<Rightarrow> bool" where
  "is_js_space c =
     ((0x0009 \<le> c \<and> c \<le> 0x000D) \<or> c = 0x0020 \<or> c = 0x00A0 \<or> c = 0x1680 \<or>
      (0x2000 \<le> c \<and> c \<le> 0x200A) \<or> c = 0x2028 \<or> c = 0x2029 \<or> c = 0x202F \<or>
      c = 0x205F \<or> c = 0x3000 \<or> c = 0xFEFF)"

definition trim :: "js_string \<Rightarrow> js_string" where
  "trim s = rev (dropWhile is_js_space (rev (dropWhile is_js_space s)))"

text \<open>
  Decimal rendering of a natural number, as a template literal renders an HTTP status (a
  number below 10^21 is rendered in plain decimal).
\<close>

fun show_nat :: "nat \<Rightarrow> js_string" where
  "show_nat n =
     (if n < 10 then [of_char CHR ''0'' + word_of_nat n]
      else show_nat (n div 10) @ [of_char CHR ''0'' + word_of_nat (n mod 10)])"

declare show_nat.simps [simp del]

section \<open>Decoded JSON payloads\<close>

text \<open>
  Response bodies and free-form metadata are decoded JSON. The client never computes with
  a number: it only tests one for truthiness and renders it. A number is therefore kept as
  the string that \<open>Number::toString\<close> gives for it, whatever its size or fraction: \<open>0\<close> for
  both zeros, \<open>404\<close>, \<open>1.5\<close>, \<open>1e+21\<close>.
\<close>

type_synonym js_number = js_string

datatype json =
    JNull
  | JBool bool
  | JNum js_number
  | JStr js_string
  | JArr "json list"
  | JObj "(js_string \<times> json) list"

text \<open>
  Truthiness of a JSON value, as \<open>||\<close> tests it; the falsy numbers are the zeros and
  \<open>NaN\<close>.
\<close>

fun truthy_json :: "json \<Rightarrow> bool" where
  "truthy_json JNull = False"
| "truthy_json (JBool b) = b"
| "truthy_json (JNum n) = (n \<noteq> js ''0'' \<and> n \<noteq> js ''NaN'')"
| "truthy_json (JStr s) = truthy_str s"
| "truthy_json (JArr xs) = True"
| "truthy_json (JObj kvs) = True"

text \<open>\<open>Array.prototype.join(',')\<close> on already rendered elements.\<close>

fun join_comma :: "js_string list \<Rightarrow> js_string" where
  "join_comma [] = []"
| "join_comma [x] = x"
| "join_comma (x # y # ys) = x @ js '','' @ join_comma (y # ys)"

text \<open>
  \<open>ToString\<close>, which the \<open>Error\<close> constructor applies to its message argument. An array
  renders its elements joined by commas, \<open>null\<close> elements as the empty string; an object
  renders as \<open>[object Object]\<close>.
\<close>

fun to_string :: "json \<Rightarrow> js_string" where
  "to_string JNull = js ''null''"
| "to_string (JBool b) = (if b then js ''true'' else js ''false'')"
| "to_string (JNum n) = n"
| "to_string (JStr s) = s"
| "to_string (JArr xs) =
     join_comma (map (\<lambda>x. if x = JNull then [] else to_string x) xs)"
| "to_string (JObj kvs) = js ''[object Object]''"

text \<open>
  \<open>data?.message\<close>: the property \<open>message\<close> of a decoded body; \<open>undefined\<close> (\<open>None\<close>) when
  the body is \<open>undefined\<close> or \<open>null\<close>, is not an object, or has no such key.
\<close>

fun get_message :: "json option \<Rightarrow> json option" where
  "get_message (Some (JObj kvs)) = map_of kvs (js ''message'')"
| "get_message _ = None"

section \<open>The error hierarchy\<close>

text \<open>
  \<open>CueMeetError\<close> extends \<open>Error\<close> with an optional status, an optional code and optional
  details; each subclass fixes the status and the code and sets its own \<open>name\<close>. The
  \<open>Error\<close> constructor stores the message as a string.
\<close>

datatype error_name =
  CueMeetErrorN | ValidationErrorN | AuthenticationErrorN | NotFoundErrorN | RateLimitErrorN

record cuemeet_error =
  err_name :: error_name
  message :: js_string
  status :: "nat option"
  code :: "js_string option"
  details :: "(js_string \<times> json option) list option"

definition CueMeetError ::
  "js_string \<Rightarrow> nat option \<Rightarrow> js_string option \<Rightarrow> (js_string \<times> json option) list option
     \<Rightarrow> cuemeet_error" where
  "CueMeetError msg st cd dt =
     \<lparr>err_name = CueMeetErrorN, message = msg, status = st, code = cd, details = dt\<rparr>"

definition ValidationError ::
  "js_string \<Rightarrow> (js_string \<times> json option) list option \<Rightarrow> cuemeet_error" where
  "ValidationError msg dt =
     (CueMeetError msg (Some 400) (Some (js ''VALIDATION_ERROR'')) dt)
       \<lparr>err_name := ValidationErrorN\<rparr>"

definition AuthenticationError :: "js_string \<Rightarrow> cuemeet_error" where
  "AuthenticationError msg =
     (CueMeetError msg (Some 401) (Some (js ''AUTHENTICATION_ERROR'')) None)
       \<lparr>err_name := AuthenticationErrorN\<rparr>"

definition NotFoundError :: "js_string \<Rightarrow> cuemeet_error" where
  "NotFoundError msg =
     (CueMeetError msg (Some 404) (Some (js ''NOT_FOUND'')) None)
       \<lparr>err_name := NotFoundErrorN\<rparr>"

definition RateLimitError :: "js_string \<Rightarrow> js_number option \<Rightarrow> cuemeet_error" where
  "RateLimitError msg retryAfter =
     (CueMeetError msg (Some 429) (Some (js ''RATE_LIMIT_EXCEEDED''))
        (Some [(js ''retryAfter'', map_option JNum retryAfter)]))
       \<lparr>err_name := RateLimitErrorN\<rparr>"

section \<open>The HTTP library as the client sees it\<close>

record response =
  resp_status :: nat
  resp_data :: "json option"

text \<open>
  An \<open>AxiosError\<close>: its generic message, the server's response when one arrived, and
  whether a request object is attached.
\<close>

record axios_error =
  ax_message :: js_string
  ax_response :: "response option"
  ax_request :: bool

text \<open>
  What a \<open>throw\<close> can carry here: an error of the client's hierarchy, a plain \<open>Error\<close> with
  its message, or an \<open>AxiosError\<close>.
\<close>

datatype thrown =
    Typed cuemeet_error
  | Plain js_string
  | Axios axios_error

text \<open>
  \<open>error instanceof CueMeetError\<close> and \<open>error.message\<close>; \<open>axios.isAxiosError(error)\<close> is the
  case \<open>Axios\<close>.
\<close>

fun instanceof_CueMeetError :: "thrown \<Rightarrow> bool" where
  "instanceof_CueMeetError (Typed e) = True"
| "instanceof_CueMeetError _ = False"

fun error_message :: "thrown \<Rightarrow> js_string" where
  "error_message (Typed e) = message e"
| "error_message (Plain m) = m"
| "error_message (Axios e) = ax_message e"

text \<open>The argument objects of the operations; a field that may be missing is optional.\<close>

record user_data =
  ud_email :: "js_string option"
  ud_name :: "js_string option"

record api_key_data =
  kd_userId :: "js_string option"
  kd_name :: "js_string option"
  kd_expiresAt :: "js_string option"
  kd_permissions :: "js_string list option"

datatype recording_mode = SPEAKER_VIEW | GALLERY_VIEW | AUDIO_ONLY

record create_bot_request =
  bot_name :: "js_string option"
  bot_meetingUrl :: "js_string option"
  bot_title :: "js_string option"
  bot_recordingMode :: "recording_mode option"
  bot_joinAt :: "js_string option"
  bot_leaveAt :: "js_string option"
  bot_metadata :: "(js_string \<times> json) list option"

record transcript_query_params =
  page :: "js_number option"
  limit :: "js_number option"

text \<open>The object handed to the library as the request body.\<close>

datatype body =
    UserBody user_data
  | ApiKeyBody api_key_data
  | UserIdBody js_string
  | BotBody create_bot_request

datatype http_verb = GET | POST | DELETE

record axios_defaults =
  baseURL :: "js_string option"
  timeout :: nat
  headers :: "(js_string \<times> js_string) list"

text \<open>
  A request as it leaves the library: what the call site passed (verb, path, body, query
  parameters) together with the defaults of the instance it was issued on.
\<close>

record request =
  req_verb :: http_verb
  req_url :: js_string
  req_data :: "body option"
  req_params :: "transcript_query_params option"
  req_defaults :: axios_defaults

datatype adapter_result = Fulfilled response | Failed thrown

record axios_instance =
  defaults :: axios_defaults
  adapter :: "request \<Rightarrow> adapter_result"

text \<open>\<open>axios.create(config)\<close> on the network \<open>net\<close>.\<close>

definition axios_create :: "(request \<Rightarrow> adapter_result) \<Rightarrow> axios_defaults \<Rightarrow> axios_instance" where
  "axios_create net config = \<lparr>defaults = config, adapter = net\<rparr>"

section \<open>The client\<close>

record cuemeet_client =
  baseUrl :: js_string
  client :: axios_instance

record client_options =
  opt_baseUrl :: "js_string option"
  opt_timeout :: "nat option"

text \<open>
  The constructor fails with a plain \<open>Error\<close> on a missing or empty base URL; otherwise it
  removes one trailing slash, appends \<open>/api/v1\<close>, and uses the given instance or creates one.
\<close>

definition "constructor" ::
  "(request \<Rightarrow> adapter_result) \<Rightarrow> client_options \<Rightarrow> axios_instance option
     \<Rightarrow> thrown + cuemeet_client" where
  "constructor net options axiosInstance =
     (case opt_baseUrl options of
        None \<Rightarrow> Inl (Plain (js ''baseUrl is required for CueMeet client initialization''))
      | Some b \<Rightarrow>
          if \<not> truthy_str b
          then Inl (Plain (js ''baseUrl is required for CueMeet client initialization''))
          else
            let base = (if endsWith_slash b then slice_0_m1 b @ js ''/api/v1''
                        else b @ js ''/api/v1'')
            in Inr \<lparr>baseUrl = base,
                    client =
                      (case axiosInstance of
                         Some inst \<Rightarrow> inst
                       | None \<Rightarrow>
                           axios_create net
                             \<lparr>baseURL = Some base,
                              timeout = (case opt_timeout options of
                                           None \<Rightarrow> 10000
                                         | Some t \<Rightarrow> if t = 0 then 10000 else t),
                              headers = [(js ''Content-Type'', js ''application/json'')]\<rparr>)\<rparr>)"

text \<open>
  The response interceptor installed by the constructor. Its success handler returns the
  response as it is. Its error handler turns an \<open>AxiosError\<close> into a \<open>CueMeetError\<close> with
  the server's message (or the error's own) and the response status, and rethrows
  anything else.
\<close>

definition interceptor_error :: "thrown \<Rightarrow> thrown" where
  "interceptor_error error =
     (case error of
        Axios ae \<Rightarrow>
          let server_message =
                (case ax_response ae of None \<Rightarrow> None | Some r \<Rightarrow> get_message (resp_data r));
              msg =
                (case server_message of
                   None \<Rightarrow> ax_message ae
                 | Some v \<Rightarrow> if truthy_json v then to_string v else ax_message ae);
              st = map_option resp_status (ax_response ae)
          in Typed (CueMeetError msg st None None)
      | _ \<Rightarrow> error)"

text \<open>
  \<open>this.client.post/get/delete\<close>: one request goes to the adapter, and a failure passes
  through the interceptor. The second component records the requests dispatched.
\<close>

definition send ::
  "cuemeet_client \<Rightarrow> http_verb \<Rightarrow> js_string \<Rightarrow> body option \<Rightarrow> transcript_query_params option
     \<Rightarrow> (thrown + response) \<times> request list" where
  "send c verb url data params =
     (let req = \<lparr>req_verb = verb, req_url = url, req_data = data, req_params = params,
                 req_defaults = defaults (client c)\<rparr>
      in (case adapter (client c) req of
            Fulfilled r \<Rightarrow> Inr r
          | Failed e \<Rightarrow> Inl (interceptor_error e),
          [req]))"

section \<open>Private validators\<close>

text \<open>
  Each validator returns the error it throws, or \<open>None\<close> when it returns normally. The
  \<open>typeof\<close> test of the source is always passed by a string argument.
\<close>

definition validateApiKey :: "js_string \<Rightarrow> thrown option" where
  "validateApiKey apiKey =
     (if \<not> truthy_str apiKey \<or> length (trim apiKey) = 0
      then Some (Typed (ValidationError
                   (js ''API key is required and must be a non-empty string'') None))
      else None)"

text \<open>
  \<open>new URL(url)\<close> is the platform's URL parser; \<open>url_parses\<close> says whether it accepts the
  string.
\<close>

definition validateMeetingUrl :: "(js_string \<Rightarrow> bool) \<Rightarrow> js_string \<Rightarrow> thrown option" where
  "validateMeetingUrl url_parses url =
     (if \<not> truthy_str url \<or> length (trim url) = 0
      then Some (Typed (ValidationError
                   (js ''Meeting URL is required and must be a non-empty string'') None))
      else if \<not> url_parses url
      then Some (Typed (ValidationError (js ''Invalid meeting URL format'') None))
      else None)"

definition validateUserData :: "user_data \<Rightarrow> thrown option" where
  "validateUserData userData =
     (if (case ud_email userData of
            None \<Rightarrow> True
          | Some e \<Rightarrow> \<not> truthy_str e \<or> \<not> includes_at e)
      then Some (Typed (ValidationError (js ''Valid email is required'') None))
      else if (case ud_name userData of
                 None \<Rightarrow> True
               | Some n \<Rightarrow> \<not> truthy_str n \<or> length (trim n) = 0)
      then Some (Typed (ValidationError
                   (js ''Name is required and must be a non-empty string'') None))
      else None)"

section \<open>Error handlers\<close>

text \<open>
  The \<open>catch\<close> clause shared by seven operations: a \<open>CueMeetError\<close> is rethrown, anything
  else is replaced by a \<open>CueMeetError\<close> with the operation's message and status 500.
\<close>

definition catch_clause :: "js_string \<Rightarrow> thrown \<Rightarrow> thrown" where
  "catch_clause failed error =
     (if instanceof_CueMeetError error then error
      else Typed (CueMeetError failed (Some 500) None None))"

text \<open>
  \<open>_handleError\<close>, used by \<open>revokeApiKey\<close> only: it always builds a plain \<open>Error\<close>.
  \<open>stringify\<close> is \<open>JSON.stringify\<close> as a template literal renders its result.
\<close>

definition handleError :: "(json option \<Rightarrow> js_string) \<Rightarrow> thrown \<Rightarrow> js_string \<Rightarrow> thrown" where
  "handleError stringify error msg =
     (case error of
        Axios axiosError \<Rightarrow>
          (case ax_response axiosError of
             Some r \<Rightarrow>
               Plain (msg @ js '': '' @ show_nat (resp_status r) @ js '' - ''
                        @ stringify (resp_data r))
           | None \<Rightarrow>
               if ax_request axiosError
               then Plain (msg @ js '': No response received from server'')
               else Plain (msg @ js '': '' @ error_message error))
      | _ \<Rightarrow> Plain (msg @ js '': '' @ error_message error))"

section \<open>Operations\<close>

text \<open>
  An operation is asynchronous: it yields the rejection (\<open>Inl\<close>) or the resolved value
  (\<open>Inr\<close>), together with the requests it dispatched.
\<close>

type_synonym outcome = "(thrown + json option) \<times> request list"

text \<open>What follows the \<open>await\<close>: the body of the response, or the handled error.\<close>

definition after_await ::
  "(thrown \<Rightarrow> thrown) \<Rightarrow> (thrown + response) \<times> request list \<Rightarrow> outcome" where
  "after_await handler r =
     (case fst r of
        Inr resp \<Rightarrow> (Inr (resp_data resp), snd r)
      | Inl error \<Rightarrow> (Inl (handler error), snd r))"

definition createUser :: "cuemeet_client \<Rightarrow> user_data \<Rightarrow> outcome" where
  "createUser c userData =
     (if \<not> truthy_field (ud_email userData)
      then (Inl (catch_clause (js ''Failed to create user'')
                   (Typed (CueMeetError (js ''email is required for user creation'')
                             (Some 400) None None))), [])
      else if \<not> truthy_field (ud_name userData)
      then (Inl (catch_clause (js ''Failed to create user'')
                   (Typed (CueMeetError (js ''name is required for user creation'')
                             (Some 400) None None))), [])
      else after_await (catch_clause (js ''Failed to create user''))
             (send c POST (js ''/auth/register'') (Some (UserBody userData)) None))"

definition createApiKey :: "cuemeet_client \<Rightarrow> api_key_data \<Rightarrow> outcome" where
  "createApiKey c keyData =
     (if \<not> truthy_field (kd_userId keyData)
      then (Inl (Typed (CueMeetError (js ''userId is required for API key creation'')
                          (Some 400) None None)), [])
      else
        (case kd_name keyData of
           None \<Rightarrow>
             (Inl (Typed (CueMeetError (js ''name is required for API key creation'')
                            (Some 400) None None)), [])
         | Some name \<Rightarrow>
             if \<not> truthy_str name
             then (Inl (Typed (CueMeetError (js ''name is required for API key creation'')
                                 (Some 400) None None)), [])
             else if length name > 100
             then (Inl (Typed (CueMeetError (js ''name must not exceed 100 characters'')
                                 (Some 400) None None)), [])
             else after_await (catch_clause (js ''Failed to create API key''))
                    (send c POST (js ''/api-keys'') (Some (ApiKeyBody keyData)) None)))"

definition listApiKeys :: "cuemeet_client \<Rightarrow> js_string \<Rightarrow> outcome" where
  "listApiKeys c userId =
     (if \<not> truthy_str userId
      then (Inl (Typed (CueMeetError (js ''userId is required to list API keys'')
                          (Some 400) None None)), [])
      else after_await (catch_clause (js ''Failed to list API keys''))
             (send c POST (js ''/api-keys/list'') (Some (UserIdBody userId)) None))"

definition revokeApiKey ::
  "(json option \<Rightarrow> js_string) \<Rightarrow> cuemeet_client \<Rightarrow> js_string \<Rightarrow> outcome" where
  "revokeApiKey stringify c keyId =
     (if \<not> truthy_str keyId
      then (Inl (Plain (js ''keyId is required to revoke an API key'')), [])
      else after_await (\<lambda>error. handleError stringify error (js ''Failed to revoke API key: '' @ keyId))
             (send c DELETE (js ''/api-keys/'' @ keyId) None None))"

definition createBot ::
  "(js_string \<Rightarrow> bool) \<Rightarrow> cuemeet_client \<Rightarrow> js_string \<Rightarrow> create_bot_request \<Rightarrow> outcome" where
  "createBot url_parses c apiKey botData =
     (if \<not> truthy_field (bot_name botData)
      then (Inl (Typed (CueMeetError (js ''name is required for bot creation'')
                          (Some 400) None None)), [])
      else
        (case bot_meetingUrl botData of
           None \<Rightarrow>
             (Inl (Typed (CueMeetError (js ''meetingUrl is required for bot creation'')
                            (Some 400) None None)), [])
         | Some meetingUrl \<Rightarrow>
             if \<not> truthy_str meetingUrl
             then (Inl (Typed (CueMeetError (js ''meetingUrl is required for bot creation'')
                                 (Some 400) None None)), [])
             else
               (case validateMeetingUrl url_parses meetingUrl of
                  Some e \<Rightarrow> (Inl e, [])
                | None \<Rightarrow>
                    after_await (catch_clause (js ''Failed to create bot''))
                      (send c POST (js ''/bots'') (Some (BotBody botData)) None))))"

definition retrieveBot :: "cuemeet_client \<Rightarrow> js_string \<Rightarrow> js_string \<Rightarrow> outcome" where
  "retrieveBot c apiKey botId =
     (case validateApiKey apiKey of
        Some e \<Rightarrow> (Inl e, [])
      | None \<Rightarrow>
          if \<not> truthy_str botId
          then (Inl (Typed (CueMeetError (js ''botId is required to retrieve bot'')
                              (Some 400) None None)), [])
          else after_await (catch_clause (js ''Failed to retrieve bot''))
                 (send c GET (js ''/bots/'' @ botId) None None))"

definition removeBotFromCall :: "cuemeet_client \<Rightarrow> js_string \<Rightarrow> js_string \<Rightarrow> outcome" where
  "removeBotFromCall c apiKey botId =
     (case validateApiKey apiKey of
        Some e \<Rightarrow> (Inl e, [])
      | None \<Rightarrow>
          if \<not> truthy_str botId
          then (Inl (Typed (CueMeetError (js ''botId is required to remove bot'')
                              (Some 400) None None)), [])
          else after_await (catch_clause (js ''Failed to remove bot''))
                 (send c DELETE (js ''/bots/'' @ botId) None None))"

definition retrieveTranscript ::
  "cuemeet_client \<Rightarrow> js_string \<Rightarrow> js_string \<Rightarrow> transcript_query_params option \<Rightarrow> outcome" where
  "retrieveTranscript c apiKey ident params =
     (case validateApiKey apiKey of
        Some e \<Rightarrow> (Inl e, [])
      | None \<Rightarrow>
          if \<not> truthy_str ident
          then (Inl (Typed (CueMeetError (js ''id is required to retrieve transcript'')
                              (Some 400) None None)), [])
          else after_await (catch_clause (js ''Failed to retrieve transcript''))
                 (send c GET (js ''/transcripts/'' @ ident) None params))"

text \<open>
  \<open>setBaseUrl\<close> fails with a plain \<open>Error\<close> on the empty string; otherwise it stores the
  normalised URL in the client and in the defaults of its instance.
\<close>

definition setBaseUrl :: "cuemeet_client \<Rightarrow> js_string \<Rightarrow> thrown + cuemeet_client" where
  "setBaseUrl c newUrl =
     (if \<not> truthy_str newUrl then Inl (Plain (js ''baseUrl cannot be empty''))
      else
        let base = (if endsWith_slash newUrl then slice_0_m1 newUrl @ js ''/api/v1''
                    else newUrl @ js ''/api/v1'')
        in Inr (c\<lparr>baseUrl := base,
                  client := (client c)\<lparr>defaults := (defaults (client c))\<lparr>baseURL := Some base\<rparr>\<rparr>\<rparr>))"

section \<open>Calls and histories\<close>

text \<open>The eight operations as one type of call, so that a statement can range over all of them.\<close>

datatype call =
    CreateUser user_data
  | CreateApiKey api_key_data
  | ListApiKeys js_string
  | RevokeApiKey js_string
  | CreateBot js_string create_bot_request
  | RetrieveBot js_string js_string
  | RemoveBotFromCall js_string js_string
  | RetrieveTranscript js_string js_string "transcript_query_params option"

fun invoke ::
  "(js_string \<Rightarrow> bool) \<Rightarrow> (json option \<Rightarrow> js_string) \<Rightarrow> cuemeet_client \<Rightarrow> call \<Rightarrow> outcome" where
  "invoke url_parses stringify c (CreateUser userData) = createUser c userData"
| "invoke url_parses stringify c (CreateApiKey keyData) = createApiKey c keyData"
| "invoke url_parses stringify c (ListApiKeys userId) = listApiKeys c userId"
| "invoke url_parses stringify c (RevokeApiKey keyId) = revokeApiKey stringify c keyId"
| "invoke url_parses stringify c (CreateBot apiKey botData) = createBot url_parses c apiKey botData"
| "invoke url_parses stringify c (RetrieveBot apiKey botId) = retrieveBot c apiKey botId"
| "invoke url_parses stringify c (RemoveBotFromCall apiKey botId) = removeBotFromCall c apiKey botId"
| "invoke url_parses stringify c (RetrieveTranscript apiKey ident params) =
     retrieveTranscript c apiKey ident params"

text \<open>
  The life of a client after its construction: operations, none of which assigns a field
  of the client, and reconfigurations, which change it when they succeed.
\<close>

datatype event = Operation call | Reconfigure js_string

fun step :: "cuemeet_client \<Rightarrow> event \<Rightarrow> cuemeet_client" where
  "step c (Operation op) = c"
| "step c (Reconfigure newUrl) = (case setBaseUrl c newUrl of Inl e \<Rightarrow> c | Inr c' \<Rightarrow> c')"

definition run :: "cuemeet_client \<Rightarrow> event list \<Rightarrow> cuemeet_client" where
  "run c evs = foldl step c evs"

text \<open>The URL given last: by the latest non-empty reconfiguration, else at construction.\<close>

fun latest_url :: "js_string \<Rightarrow> event list \<Rightarrow> js_string" where
  "latest_url u [] = u"
| "latest_url u (Operation op # evs) = latest_url u evs"
| "latest_url u (Reconfigure newUrl # evs) = latest_url (if newUrl = [] then u else newUrl) evs"

section \<open>Test doubles\<close>

text \<open>
  A mocked transport that answers every request with the given status and body: the
  library fulfils a 2xx response and rejects any other with an \<open>AxiosError\<close> that carries
  the response.
\<close>

definition mock_reply :: "nat \<Rightarrow> json option \<Rightarrow> request \<Rightarrow> adapter_result" where
  "mock_reply st body req =
     (if 200 \<le> st \<and> st < 300 then Fulfilled \<lparr>resp_status = st, resp_data = body\<rparr>
      else Failed (Axios \<lparr>ax_message = js ''Request failed with status code '' @ show_nat st,
                          ax_response = Some \<lparr>resp_status = st, resp_data = body\<rparr>,
                          ax_request = True\<rparr>))"

text \<open>The client of the test suite: a bare instance with the mocked transport.\<close>

definition mock_instance :: "(request \<Rightarrow> adapter_result) \<Rightarrow> axios_instance" where
  "mock_instance net = \<lparr>defaults = \<lparr>baseURL = None, timeout = 0, headers = []\<rparr>, adapter = net\<rparr>"

definition test_client :: "(request \<Rightarrow> adapter_result) \<Rightarrow> cuemeet_client" where
  "test_client net = \<lparr>baseUrl = js ''http://localhost:4000/api/v1'', client = mock_instance net\<rparr>"

text \<open>A stand-in for the URL parser that accepts what starts with \<open>http://\<close> or \<open>https://\<close>.\<close>

definition mock_url_parses :: "js_string \<Rightarrow> bool" where
  "mock_url_parses u =
     (take 7 u = js ''http://'' \<or> take 8 u = js ''https://'')"

text \<open>A stand-in for \<open>JSON.stringify\<close> that is enough where no body is rendered.\<close>

definition mock_stringify :: "json option \<Rightarrow> js_string" where
  "mock_stringify d = (case d of None \<Rightarrow> js ''undefined'' | Some v \<Rightarrow> to_string v)"

text \<open>The base URL stored by a construction or reconfiguration that succeeded.\<close>

definition stored_base :: "thrown + cuemeet_client \<Rightarrow> js_string option" where
  "stored_base r = (case r of Inl e \<Rightarrow> None | Inr c \<Rightarrow> Some (baseUrl c))"

text \<open>A URL with one trailing slash removed, if it has one.\<close>

definition without_trailing_slash :: "js_string \<Rightarrow> js_string" where
  "without_trailing_slash u = (if endsWith_slash u then slice_0_m1 u else u)"

section \<open>Required fields and valid calls\<close>

text \<open>
  A call lacks a required field: \<open>email\<close> or \<open>name\<close> for \<open>createUser\<close>; \<open>userId\<close> or
  \<open>name\<close> for \<open>createApiKey\<close>; \<open>userId\<close> for \<open>listApiKeys\<close>; \<open>keyId\<close> for
  \<open>revokeApiKey\<close>; \<open>name\<close> or \<open>meetingUrl\<close> for \<open>createBot\<close>; \<open>botId\<close> for \<open>retrieveBot\<close>
  and \<open>removeBotFromCall\<close>; \<open>id\<close> for \<open>retrieveTranscript\<close>. Absent and empty count alike.
\<close>

fun missing_required :: "call \<Rightarrow> bool" where
  "missing_required (CreateUser userData) =
     (\<not> truthy_field (ud_email userData) \<or> \<not> truthy_field (ud_name userData))"
| "missing_required (CreateApiKey keyData) =
     (\<not> truthy_field (kd_userId keyData) \<or> \<not> truthy_field (kd_name keyData))"
| "missing_required (ListApiKeys userId) = (userId = [])"
| "missing_required (RevokeApiKey keyId) = (keyId = [])"
| "missing_required (CreateBot apiKey botData) =
     (\<not> truthy_field (bot_name botData) \<or> \<not> truthy_field (bot_meetingUrl botData))"
| "missing_required (RetrieveBot apiKey botId) = (botId = [])"
| "missing_required (RemoveBotFromCall apiKey botId) = (botId = [])"
| "missing_required (RetrieveTranscript apiKey ident params) = (ident = [])"

text \<open>A string with something other than white space in it.\<close>

definition not_blank :: "js_string \<Rightarrow> bool" where
  "not_blank s = (s \<noteq> [] \<and> trim s \<noteq> [])"

text \<open>
  A valid call: the required fields are present and non-empty; the name of an API key has
  at most 100 code units; the meeting URL of a bot is not blank and parses; the credential
  of a bot retrieval, a bot removal or a transcript retrieval is not blank.
\<close>

fun valid_call :: "(js_string \<Rightarrow> bool) \<Rightarrow> call \<Rightarrow> bool" where
  "valid_call url_parses (CreateUser userData) =
     (truthy_field (ud_email userData) \<and> truthy_field (ud_name userData))"
| "valid_call url_parses (CreateApiKey keyData) =
     (truthy_field (kd_userId keyData) \<and>
      (case kd_name keyData of None \<Rightarrow> False | Some n \<Rightarrow> n \<noteq> [] \<and> length n \<le> 100))"
| "valid_call url_parses (ListApiKeys userId) = (userId \<noteq> [])"
| "valid_call url_parses (RevokeApiKey keyId) = (keyId \<noteq> [])"
| "valid_call url_parses (CreateBot apiKey botData) =
     (truthy_field (bot_name botData) \<and>
      (case bot_meetingUrl botData of None \<Rightarrow> False | Some u \<Rightarrow> not_blank u \<and> url_parses u))"
| "valid_call url_parses (RetrieveBot apiKey botId) = (not_blank apiKey \<and> botId \<noteq> [])"
| "valid_call url_parses (RemoveBotFromCall apiKey botId) = (not_blank apiKey \<and> botId \<noteq> [])"
| "valid_call url_parses (RetrieveTranscript apiKey ident params) =
     (not_blank apiKey \<and> ident \<noteq> [])"

text \<open>
  The request of each operation by the table of endpoints: verb, path, and body or query
  parameters, on the defaults of the client's instance.
\<close>

definition endpoint ::
  "cuemeet_client \<Rightarrow> http_verb \<Rightarrow> js_string \<Rightarrow> body option \<Rightarrow> transcript_query_params option
     \<Rightarrow> request" where
  "endpoint c verb path b q =
     \<lparr>req_verb = verb, req_url = path, req_data = b, req_params = q,
      req_defaults = defaults (client c)\<rparr>"

fun request_of :: "cuemeet_client \<Rightarrow> call \<Rightarrow> request" where
  "request_of c (CreateUser userData) =
     endpoint c POST (js ''/auth/register'') (Some (UserBody userData)) None"
| "request_of c (CreateApiKey keyData) =
     endpoint c POST (js ''/api-keys'') (Some (ApiKeyBody keyData)) None"
| "request_of c (ListApiKeys userId) =
     endpoint c POST (js ''/api-keys/list'') (Some (UserIdBody userId)) None"
| "request_of c (RevokeApiKey keyId) =
     endpoint c DELETE (js ''/api-keys/'' @ keyId) None None"
| "request_of c (CreateBot apiKey botData) =
     endpoint c POST (js ''/bots'') (Some (BotBody botData)) None"
| "request_of c (RetrieveBot apiKey botId) =
     endpoint c GET (js ''/bots/'' @ botId) None None"
| "request_of c (RemoveBotFromCall apiKey botId) =
     endpoint c DELETE (js ''/bots/'' @ botId) None None"
| "request_of c (RetrieveTranscript apiKey ident params) =
     endpoint c GET (js ''/transcripts/'' @ ident) None params"

section \<open>Facts about strings\<close>

lemma js_Nil [simp]: "js [] = []"
  by (simp add: js_def)

lemma js_eq_Nil [simp]: "js s = [] \<longleftrightarrow> s = []"
  by (simp add: js_def)

lemma trim_Nil [simp]: "trim [] = []"
  by (simp add: trim_def)

section \<open>Base-URL normalisation\<close>

lemma endsWith_slash_snoc: "endsWith_slash (s @ js ''/'')"
  by (simp add: endsWith_slash_def js_def)

lemma slice_snoc: "slice_0_m1 (s @ js ''/'') = s"
  by (simp add: slice_0_m1_def js_def)

text \<open>
  Claim C6, as amended. For every non-empty URL \<open>s\<close> that does not itself end with a
  slash, reconfiguring with \<open>s\<close> and with \<open>s/\<close> gives the same client, whose base URL is
  \<open>s/api/v1\<close>. Only one trailing slash is removed, so the equation does not extend to an
  \<open>s\<close> that already ends with a slash.
\<close>

theorem setBaseUrl_trailing_slash:
  "s \<noteq> [] \<Longrightarrow> \<not> endsWith_slash s \<Longrightarrow>
     setBaseUrl c (s @ js ''/'') = setBaseUrl c s \<and>
     stored_base (setBaseUrl c s) = Some (s @ js ''/api/v1'') \<and>
     stored_base (setBaseUrl c (s @ js ''/'')) = Some (s @ js ''/api/v1'')"
  by (simp add: setBaseUrl_def truthy_str_def endsWith_slash_snoc slice_snoc stored_base_def
      Let_def)

text \<open>The example of the specification: \<open>https://x.com\<close> and \<open>https://x.com/\<close>.\<close>

theorem setBaseUrl_trailing_slash_witness:
  "js ''https://x.com'' \<noteq> [] \<and> \<not> endsWith_slash (js ''https://x.com'') \<and>
   stored_base (setBaseUrl (test_client (mock_reply 200 None)) (js ''https://x.com''))
     = Some (js ''https://x.com/api/v1'') \<and>
   stored_base (setBaseUrl (test_client (mock_reply 200 None)) (js ''https://x.com/''))
     = Some (js ''https://x.com/api/v1'')"
proof -
  have ne: "js ''https://x.com'' \<noteq> []"
    by (simp add: js_def)
  have ns: "\<not> endsWith_slash (js ''https://x.com'')"
    by (simp add: endsWith_slash_def js_def)
  have ap: "js ''https://x.com'' @ js ''/'' = js ''https://x.com/''"
    by (simp add: js_def)
  have sf: "js ''https://x.com'' @ js ''/api/v1'' = js ''https://x.com/api/v1''"
    by (simp add: js_def)
  from setBaseUrl_trailing_slash [OF ne ns, of "test_client (mock_reply 200 None)"] ne ns
  show ?thesis by (simp only: ap sf simp_thms)
qed

text \<open>
  The claim as stated fails at \<open>s = https://x.com/\<close>: \<open>s\<close> is normalised to
  \<open>https://x.com/api/v1\<close>, but \<open>s/\<close> to \<open>https://x.com//api/v1\<close>.
\<close>

theorem setBaseUrl_double_slash_counterexample:
  "js ''https://x.com/'' \<noteq> [] \<and>
   stored_base (setBaseUrl (test_client (mock_reply 200 None)) (js ''https://x.com/''))
     = Some (js ''https://x.com/api/v1'') \<and>
   stored_base (setBaseUrl (test_client (mock_reply 200 None)) (js ''https://x.com/'' @ js ''/''))
     = Some (js ''https://x.com//api/v1'') \<and>
   stored_base (setBaseUrl (test_client (mock_reply 200 None)) (js ''https://x.com/''))
     \<noteq> stored_base (setBaseUrl (test_client (mock_reply 200 None)) (js ''https://x.com/'' @ js ''/''))"
  by (simp add: setBaseUrl_def truthy_str_def endsWith_slash_def slice_0_m1_def stored_base_def
      js_def Let_def)

section \<open>The base URL as an invariant of the client\<close>

lemma setBaseUrl_baseUrl:
  "u \<noteq> [] \<Longrightarrow> \<exists>c'. setBaseUrl c u = Inr c' \<and> baseUrl c' = without_trailing_slash u @ js ''/api/v1''"
  by (simp add: setBaseUrl_def truthy_str_def without_trailing_slash_def Let_def)

lemma setBaseUrl_empty: "setBaseUrl c [] = Inl (Plain (js ''baseUrl cannot be empty''))"
  by (simp add: setBaseUrl_def truthy_str_def)

lemma step_baseUrl:
  assumes "baseUrl c = without_trailing_slash u @ js ''/api/v1''"
  shows "baseUrl (step c (Reconfigure n)) =
           without_trailing_slash (if n = [] then u else n) @ js ''/api/v1''"
proof (cases "n = []")
  case True
  with assms show ?thesis by (simp add: setBaseUrl_empty)
next
  case False
  from setBaseUrl_baseUrl [OF False, of c] obtain c' where
    "setBaseUrl c n = Inr c'" "baseUrl c' = without_trailing_slash n @ js ''/api/v1''" by blast
  with False show ?thesis by simp
qed

lemma run_baseUrl:
  "u \<noteq> [] \<Longrightarrow> baseUrl c = without_trailing_slash u @ js ''/api/v1'' \<Longrightarrow>
     latest_url u evs \<noteq> [] \<and>
     baseUrl (run c evs) = without_trailing_slash (latest_url u evs) @ js ''/api/v1''"
  unfolding run_def
proof (induction evs arbitrary: c u)
  case Nil
  then show ?case by simp
next
  case (Cons ev evs)
  show ?case
  proof (cases ev)
    case (Operation op)
    with Cons show ?thesis by simp
  next
    case (Reconfigure n)
    have "baseUrl (step c (Reconfigure n)) = without_trailing_slash (if n = [] then u else n) @ js ''/api/v1''"
      using Cons.prems(2) by (rule step_baseUrl)
    moreover have "(if n = [] then u else n) \<noteq> []" using Cons.prems(1) by simp
    ultimately show ?thesis using Cons.IH [of "if n = [] then u else n" "step c (Reconfigure n)"] Reconfigure
      by simp
  qed
qed

lemma constructor_baseUrl:
  "opt_baseUrl options = Some u0 \<Longrightarrow> u0 \<noteq> [] \<Longrightarrow>
     \<exists>c0. constructor net options inst = Inr c0 \<and> baseUrl c0 = without_trailing_slash u0 @ js ''/api/v1''"
  by (simp add: constructor_def truthy_str_def without_trailing_slash_def Let_def)

text \<open>
  Claim C7, as amended. After a construction with a non-empty URL and any history of
  operations and reconfigurations, the stored base URL is the URL given last (at
  construction, or by the latest reconfiguration with a non-empty URL) with one trailing
  slash removed if it has one, followed by \<open>/api/v1\<close>. The part before the suffix ends
  with a slash exactly when that URL ends with two slashes. Operations do not change the
  base URL; only a reconfiguration does.
\<close>

theorem base_url_invariant:
  "opt_baseUrl options = Some u0 \<Longrightarrow> u0 \<noteq> [] \<Longrightarrow>
     \<exists>c0. constructor net options inst = Inr c0 \<and>
       latest_url u0 evs \<noteq> [] \<and>
       baseUrl (run c0 evs) = without_trailing_slash (latest_url u0 evs) @ js ''/api/v1'' \<and>
       (endsWith_slash (without_trailing_slash (latest_url u0 evs)) \<longleftrightarrow>
          endsWith_slash (latest_url u0 evs) \<and> endsWith_slash (slice_0_m1 (latest_url u0 evs)))"
proof -
  assume o: "opt_baseUrl options = Some u0" and ne: "u0 \<noteq> []"
  from constructor_baseUrl [OF o ne, of net inst] obtain c0 where
    c0: "constructor net options inst = Inr c0"
    and b0: "baseUrl c0 = without_trailing_slash u0 @ js ''/api/v1''" by blast
  from run_baseUrl [OF ne b0, of evs] have
    "latest_url u0 evs \<noteq> []"
    "baseUrl (run c0 evs) = without_trailing_slash (latest_url u0 evs) @ js ''/api/v1''"
    by simp_all
  moreover have "endsWith_slash (without_trailing_slash v) \<longleftrightarrow>
          endsWith_slash v \<and> endsWith_slash (slice_0_m1 v)" for v
    by (simp add: without_trailing_slash_def)
  ultimately show ?thesis using c0 by blast
qed

text \<open>
  A client built for \<open>https://x.com/\<close>, used once and then reconfigured to
  \<open>https://y.org/\<close>.
\<close>

theorem base_url_invariant_witness:
  "\<exists>c0. constructor (mock_reply 200 None)
          \<lparr>opt_baseUrl = Some (js ''https://x.com/''), opt_timeout = None\<rparr> None = Inr c0 \<and>
     baseUrl (run c0 [Operation (ListApiKeys (js ''u1'')), Reconfigure (js ''https://y.org/'')])
       = js ''https://y.org/api/v1'' \<and>
     \<not> endsWith_slash (js ''https://y.org'')"
proof -
  have ne: "js ''https://x.com/'' \<noteq> []"
    by (simp add: js_def)
  have l: "latest_url (js ''https://x.com/'')
             [Operation (ListApiKeys (js ''u1'')), Reconfigure (js ''https://y.org/'')]
           = js ''https://y.org/''"
    by (simp add: js_def)
  have w: "without_trailing_slash (js ''https://y.org/'') = js ''https://y.org''"
    by (simp add: without_trailing_slash_def endsWith_slash_def slice_0_m1_def js_def)
  have sf: "js ''https://y.org'' @ js ''/api/v1'' = js ''https://y.org/api/v1''"
    by (simp add: js_def)
  have ns: "\<not> endsWith_slash (js ''https://y.org'')"
    by (simp add: endsWith_slash_def js_def)
  from ns base_url_invariant
         [of "\<lparr>opt_baseUrl = Some (js ''https://x.com/''), opt_timeout = None\<rparr>"
             "js ''https://x.com/''" "mock_reply 200 None" None
             "[Operation (ListApiKeys (js ''u1'')), Reconfigure (js ''https://y.org/'')]", OF _ ne]
  show ?thesis unfolding l w sf by auto
qed

text \<open>
  The claim as stated fails for \<open>https://x.com//\<close>: the stored base URL is not the input
  followed by the suffix, and the part before the suffix still ends with a slash.
\<close>

theorem base_url_double_slash_counterexample:
  "stored_base (constructor (mock_reply 200 None)
      \<lparr>opt_baseUrl = Some (js ''https://x.com//''), opt_timeout = None\<rparr> None)
     = Some (js ''https://x.com/'' @ js ''/api/v1'') \<and>
   endsWith_slash (js ''https://x.com/'') \<and>
   js ''https://x.com/'' @ js ''/api/v1'' \<noteq> js ''https://x.com//'' @ js ''/api/v1''"
  by (simp add: constructor_def stored_base_def truthy_str_def endsWith_slash_def slice_0_m1_def
      js_def Let_def)

section \<open>From a call to its request\<close>

lemma catch_clause_Typed: "catch_clause m (Typed e) = Typed e"
  by (simp add: catch_clause_def)

lemma validateApiKey_not_blank:
  "validateApiKey k =
     (if not_blank k then None
      else Some (Typed (ValidationError
                   (js ''API key is required and must be a non-empty string'') None)))"
  by (simp add: validateApiKey_def not_blank_def truthy_str_def)

lemma validateMeetingUrl_valid:
  "not_blank u \<Longrightarrow> url_parses u \<Longrightarrow> validateMeetingUrl url_parses u = None"
  by (simp add: validateMeetingUrl_def not_blank_def truthy_str_def)

lemma after_await_send:
  "after_await h (send c v u d p) =
     (case adapter (client c)
             \<lparr>req_verb = v, req_url = u, req_data = d, req_params = p,
              req_defaults = defaults (client c)\<rparr> of
        Fulfilled r \<Rightarrow> Inr (resp_data r)
      | Failed e \<Rightarrow> Inl (h (interceptor_error e)),
      [\<lparr>req_verb = v, req_url = u, req_data = d, req_params = p,
        req_defaults = defaults (client c)\<rparr>])"
  by (simp add: after_await_def send_def Let_def split: adapter_result.splits)

text \<open>A valid call dispatches exactly the request of its endpoint, whatever the answer.\<close>

lemma valid_call_dispatches:
  "valid_call url_parses op \<Longrightarrow> snd (invoke url_parses stringify c op) = [request_of c op]"
proof (cases op)
  case (CreateUser u)
  assume "valid_call url_parses op"
  with CreateUser show ?thesis
    by (simp add: createUser_def after_await_send endpoint_def)
next
  case (CreateApiKey k)
  assume "valid_call url_parses op"
  with CreateApiKey show ?thesis
    by (auto simp add: createApiKey_def truthy_str_def after_await_send endpoint_def split: option.splits)
next
  case (ListApiKeys u)
  assume "valid_call url_parses op"
  with ListApiKeys show ?thesis
    by (simp add: listApiKeys_def truthy_str_def after_await_send endpoint_def)
next
  case (RevokeApiKey k)
  assume "valid_call url_parses op"
  with RevokeApiKey show ?thesis
    by (simp add: revokeApiKey_def truthy_str_def after_await_send endpoint_def)
next
  case (CreateBot a b)
  assume "valid_call url_parses op"
  with CreateBot show ?thesis
    by (auto simp add: createBot_def truthy_str_def not_blank_def validateMeetingUrl_valid
        after_await_send endpoint_def split: option.splits)
next
  case (RetrieveBot a b)
  assume "valid_call url_parses op"
  with RetrieveBot show ?thesis
    by (simp add: retrieveBot_def validateApiKey_not_blank truthy_str_def after_await_send endpoint_def)
next
  case (RemoveBotFromCall a b)
  assume "valid_call url_parses op"
  with RemoveBotFromCall show ?thesis
    by (simp add: removeBotFromCall_def validateApiKey_not_blank truthy_str_def
        after_await_send endpoint_def)
next
  case (RetrieveTranscript a i p)
  assume "valid_call url_parses op"
  with RetrieveTranscript show ?thesis
    by (simp add: retrieveTranscript_def validateApiKey_not_blank truthy_str_def
        after_await_send endpoint_def)
qed

text \<open>A call that is not valid dispatches nothing and is rejected.\<close>

lemma invalid_call_dispatches_nothing:
  "\<not> valid_call url_parses op \<Longrightarrow>
     snd (invoke url_parses stringify c op) = [] \<and>
     (\<exists>e. fst (invoke url_parses stringify c op) = Inl e)"
proof (cases op)
  case (CreateUser u)
  assume "\<not> valid_call url_parses op"
  with CreateUser show ?thesis
    by (auto simp add: createUser_def)
next
  case (CreateApiKey k)
  assume "\<not> valid_call url_parses op"
  with CreateApiKey show ?thesis
    by (auto simp add: createApiKey_def truthy_str_def split: option.splits)
next
  case (ListApiKeys u)
  assume "\<not> valid_call url_parses op"
  with ListApiKeys show ?thesis
    by (simp add: listApiKeys_def truthy_str_def)
next
  case (RevokeApiKey k)
  assume "\<not> valid_call url_parses op"
  with RevokeApiKey show ?thesis
    by (simp add: revokeApiKey_def truthy_str_def)
next
  case (CreateBot a b)
  assume "\<not> valid_call url_parses op"
  with CreateBot show ?thesis
    by (auto simp add: createBot_def truthy_str_def not_blank_def validateMeetingUrl_def
        split: option.splits)
next
  case (RetrieveBot a b)
  assume "\<not> valid_call url_parses op"
  with RetrieveBot show ?thesis
    by (auto simp add: retrieveBot_def validateApiKey_not_blank truthy_str_def)
next
  case (RemoveBotFromCall a b)
  assume "\<not> valid_call url_parses op"
  with RemoveBotFromCall show ?thesis
    by (auto simp add: removeBotFromCall_def validateApiKey_not_blank truthy_str_def)
next
  case (RetrieveTranscript a i p)
  assume "\<not> valid_call url_parses op"
  with RetrieveTranscript show ?thesis
    by (auto simp add: retrieveTranscript_def validateApiKey_not_blank truthy_str_def)
qed

lemma missing_required_invalid: "missing_required op \<Longrightarrow> \<not> valid_call url_parses op"
  by (cases op) (auto simp add: truthy_field_def truthy_str_def not_blank_def split: option.splits)

text \<open>
  Whatever the operation, a call that lacks a required field is rejected and no request is
  dispatched.
\<close>

lemma missing_field_dispatches_nothing:
  "missing_required op \<Longrightarrow>
     snd (invoke url_parses stringify c op) = [] \<and>
     (\<exists>e. fst (invoke url_parses stringify c op) = Inl e)"
  by (rule invalid_call_dispatches_nothing) (rule missing_required_invalid)

section \<open>The failure for a missing field\<close>

text \<open>The exact outcome for each required field, in the order the checks are made.\<close>

lemma createUser_missing_email:
  "\<not> truthy_field (ud_email u) \<Longrightarrow>
     createUser c u =
       (Inl (Typed (CueMeetError (js ''email is required for user creation'')
                      (Some 400) None None)), [])"
  by (simp add: createUser_def catch_clause_Typed)

lemma createUser_missing_name:
  "truthy_field (ud_email u) \<Longrightarrow> \<not> truthy_field (ud_name u) \<Longrightarrow>
     createUser c u =
       (Inl (Typed (CueMeetError (js ''name is required for user creation'')
                      (Some 400) None None)), [])"
  by (simp add: createUser_def catch_clause_Typed)

lemma createApiKey_missing_userId:
  "\<not> truthy_field (kd_userId k) \<Longrightarrow>
     createApiKey c k =
       (Inl (Typed (CueMeetError (js ''userId is required for API key creation'')
                      (Some 400) None None)), [])"
  by (simp add: createApiKey_def)

lemma createApiKey_missing_name:
  "truthy_field (kd_userId k) \<Longrightarrow> \<not> truthy_field (kd_name k) \<Longrightarrow>
     createApiKey c k =
       (Inl (Typed (CueMeetError (js ''name is required for API key creation'')
                      (Some 400) None None)), [])"
  by (auto simp add: createApiKey_def truthy_field_def split: option.splits)

lemma listApiKeys_missing_userId:
  "listApiKeys c [] =
     (Inl (Typed (CueMeetError (js ''userId is required to list API keys'')
                    (Some 400) None None)), [])"
  by (simp add: listApiKeys_def truthy_str_def)

lemma revokeApiKey_missing_keyId:
  "revokeApiKey stringify c [] =
     (Inl (Plain (js ''keyId is required to revoke an API key'')), [])"
  by (simp add: revokeApiKey_def truthy_str_def)

lemma createBot_missing_name:
  "\<not> truthy_field (bot_name b) \<Longrightarrow>
     createBot url_parses c a b =
       (Inl (Typed (CueMeetError (js ''name is required for bot creation'')
                      (Some 400) None None)), [])"
  by (simp add: createBot_def)

lemma createBot_missing_meetingUrl:
  "truthy_field (bot_name b) \<Longrightarrow> \<not> truthy_field (bot_meetingUrl b) \<Longrightarrow>
     createBot url_parses c a b =
       (Inl (Typed (CueMeetError (js ''meetingUrl is required for bot creation'')
                      (Some 400) None None)), [])"
  by (auto simp add: createBot_def truthy_field_def split: option.splits)

lemma retrieveBot_missing_botId:
  "retrieveBot c a [] =
     (Inl (if not_blank a
           then Typed (CueMeetError (js ''botId is required to retrieve bot'')
                         (Some 400) None None)
           else Typed (ValidationError
                         (js ''API key is required and must be a non-empty string'') None)), [])"
  by (simp add: retrieveBot_def validateApiKey_not_blank truthy_str_def)

lemma removeBotFromCall_missing_botId:
  "removeBotFromCall c a [] =
     (Inl (if not_blank a
           then Typed (CueMeetError (js ''botId is required to remove bot'')
                         (Some 400) None None)
           else Typed (ValidationError
                         (js ''API key is required and must be a non-empty string'') None)), [])"
  by (simp add: removeBotFromCall_def validateApiKey_not_blank truthy_str_def)

lemma retrieveTranscript_missing_id:
  "retrieveTranscript c a [] p =
     (Inl (if not_blank a
           then Typed (CueMeetError (js ''id is required to retrieve transcript'')
                         (Some 400) None None)
           else Typed (ValidationError
                         (js ''API key is required and must be a non-empty string'') None)), [])"
  by (simp add: retrieveTranscript_def validateApiKey_not_blank truthy_str_def)

text \<open>
  Claim C3 fails on the failure that is raised. With an empty \<open>keyId\<close>, \<open>revokeApiKey\<close>
  dispatches no request, as the claim says, but it rejects with a plain \<open>Error\<close>, not with
  the typed validation failure of kind \<open>VALIDATION_ERROR\<close> and status 400 that is documented
  for a missing field. With an empty \<open>userId\<close>, \<open>listApiKeys\<close> dispatches no request and
  rejects with a \<open>CueMeetError\<close> of status 400 that carries no kind.
\<close>

theorem missing_field_failure_not_typed:
  "revokeApiKey stringify c (js '''') =
     (Inl (Plain (js ''keyId is required to revoke an API key'')), []) \<and>
   listApiKeys c (js '''') =
     (Inl (Typed \<lparr>err_name = CueMeetErrorN,
                   message = js ''userId is required to list API keys'',
                   status = Some 400, code = None, details = None\<rparr>), [])"
  by (simp add: revokeApiKey_missing_keyId listApiKeys_missing_userId CueMeetError_def)

section \<open>What an operation makes of the transport's answer\<close>

text \<open>
  Claim C8. Whatever the operation, a valid call whose request the transport answers with
  a response (the library fulfils exactly the 2xx responses) dispatches that one request
  and resolves to the decoded body of the response, unchanged.
\<close>

theorem response_body_unmodified:
  "valid_call url_parses op \<Longrightarrow>
   adapter (client c) (request_of c op) = Fulfilled resp \<Longrightarrow>
     invoke url_parses stringify c op = (Inr (resp_data resp), [request_of c op])"
proof (cases op)
  case (CreateUser u)
  assume "valid_call url_parses op" "adapter (client c) (request_of c op) = Fulfilled resp"
  with CreateUser show ?thesis
    by (simp add: createUser_def after_await_send endpoint_def)
next
  case (CreateApiKey k)
  assume "valid_call url_parses op" "adapter (client c) (request_of c op) = Fulfilled resp"
  with CreateApiKey show ?thesis
    by (auto simp add: createApiKey_def truthy_str_def after_await_send endpoint_def split: option.splits)
next
  case (ListApiKeys u)
  assume "valid_call url_parses op" "adapter (client c) (request_of c op) = Fulfilled resp"
  with ListApiKeys show ?thesis
    by (simp add: listApiKeys_def truthy_str_def after_await_send endpoint_def)
next
  case (RevokeApiKey k)
  assume "valid_call url_parses op" "adapter (client c) (request_of c op) = Fulfilled resp"
  with RevokeApiKey show ?thesis
    by (simp add: revokeApiKey_def truthy_str_def after_await_send endpoint_def)
next
  case (CreateBot a b)
  assume "valid_call url_parses op" "adapter (client c) (request_of c op) = Fulfilled resp"
  with CreateBot show ?thesis
    by (auto simp add: createBot_def truthy_str_def not_blank_def validateMeetingUrl_valid
        after_await_send endpoint_def split: option.splits)
next
  case (RetrieveBot a b)
  assume "valid_call url_parses op" "adapter (client c) (request_of c op) = Fulfilled resp"
  with RetrieveBot show ?thesis
    by (simp add: retrieveBot_def validateApiKey_not_blank truthy_str_def after_await_send endpoint_def)
next
  case (RemoveBotFromCall a b)
  assume "valid_call url_parses op" "adapter (client c) (request_of c op) = Fulfilled resp"
  with RemoveBotFromCall show ?thesis
    by (simp add: removeBotFromCall_def validateApiKey_not_blank truthy_str_def
        after_await_send endpoint_def)
next
  case (RetrieveTranscript a i p)
  assume "valid_call url_parses op" "adapter (client c) (request_of c op) = Fulfilled resp"
  with RetrieveTranscript show ?thesis
    by (simp add: retrieveTranscript_def validateApiKey_not_blank truthy_str_def
        after_await_send endpoint_def)
qed

text \<open>
  The example of the specification: the transport answers 201 with a fixed body, and
  \<open>createBot\<close> with name \<open>B\<close> and meeting URL \<open>https://meet.example/abc\<close> dispatches one
  \<open>POST\<close> of \<open>/bots\<close> and resolves to that body.
\<close>

theorem response_body_unmodified_witness:
  "valid_call mock_url_parses
     (CreateBot (js ''key'')
        \<lparr>bot_name = Some (js ''B''), bot_meetingUrl = Some (js ''https://meet.example/abc''),
         bot_title = None, bot_recordingMode = None, bot_joinAt = None, bot_leaveAt = None,
         bot_metadata = None\<rparr>) \<and>
   invoke mock_url_parses mock_stringify
     (test_client (mock_reply 201 (Some (JObj [(js ''id'', JStr (js ''789''))]))))
     (CreateBot (js ''key'')
        \<lparr>bot_name = Some (js ''B''), bot_meetingUrl = Some (js ''https://meet.example/abc''),
         bot_title = None, bot_recordingMode = None, bot_joinAt = None, bot_leaveAt = None,
         bot_metadata = None\<rparr>)
     = (Inr (Some (JObj [(js ''id'', JStr (js ''789''))])),
        [\<lparr>req_verb = POST, req_url = js ''/bots'',
          req_data = Some (BotBody
              \<lparr>bot_name = Some (js ''B''),
               bot_meetingUrl = Some (js ''https://meet.example/abc''),
               bot_title = None, bot_recordingMode = None, bot_joinAt = None,
               bot_leaveAt = None, bot_metadata = None\<rparr>),
          req_params = None,
          req_defaults = \<lparr>baseURL = None, timeout = 0, headers = []\<rparr>\<rparr>])"
proof -
  let ?body = "Some (JObj [(js ''id'', JStr (js ''789''))])"
  let ?bot = "\<lparr>bot_name = Some (js ''B''), bot_meetingUrl = Some (js ''https://meet.example/abc''),
              bot_title = None, bot_recordingMode = None, bot_joinAt = None, bot_leaveAt = None,
              bot_metadata = None\<rparr>"
  have u: "not_blank (js ''https://meet.example/abc'')"
    by (simp add: not_blank_def trim_def is_js_space_def js_def)
  have p: "mock_url_parses (js ''https://meet.example/abc'')"
    by (simp add: mock_url_parses_def js_def)
  have v: "valid_call mock_url_parses (CreateBot (js ''key'') ?bot)"
    using u p by (simp add: truthy_field_def truthy_str_def)
  have r: "request_of (test_client (mock_reply 201 ?body)) (CreateBot (js ''key'') ?bot)
             = \<lparr>req_verb = POST, req_url = js ''/bots'', req_data = Some (BotBody ?bot),
                req_params = None,
                req_defaults = \<lparr>baseURL = None, timeout = 0, headers = []\<rparr>\<rparr>"
    by (simp add: endpoint_def test_client_def mock_instance_def)
  have a: "adapter (client (test_client (mock_reply 201 ?body)))
             (request_of (test_client (mock_reply 201 ?body)) (CreateBot (js ''key'') ?bot))
             = Fulfilled \<lparr>resp_status = 201, resp_data = ?body\<rparr>"
    by (simp add: test_client_def mock_instance_def mock_reply_def)
  from response_body_unmodified [OF v a, of mock_stringify] v r show ?thesis
    by simp
qed

section \<open>The credential and the request\<close>

text \<open>
  Claim C10. The credential is checked but never attached: for two credentials that both
  pass the client's check, and the same remaining arguments, \<open>createBot\<close>, \<open>retrieveBot\<close>,
  \<open>removeBotFromCall\<close> and \<open>retrieveTranscript\<close> dispatch the same requests (verb, path,
  body, query parameters and instance defaults, headers included).
\<close>

theorem credential_not_in_request:
  "validateApiKey k1 = None \<Longrightarrow> validateApiKey k2 = None \<Longrightarrow>
     snd (createBot url_parses c k1 botData) = snd (createBot url_parses c k2 botData) \<and>
     snd (retrieveBot c k1 botId) = snd (retrieveBot c k2 botId) \<and>
     snd (removeBotFromCall c k1 botId) = snd (removeBotFromCall c k2 botId) \<and>
     snd (retrieveTranscript c k1 ident params) = snd (retrieveTranscript c k2 ident params)"
  by (simp add: createBot_def retrieveBot_def removeBotFromCall_def retrieveTranscript_def)

text \<open>
  Two different credentials, \<open>key-one\<close> and \<open>key-two\<close>: \<open>retrieveBot\<close> for bot \<open>789\<close>
  dispatches the same single request under both, a \<open>GET\<close> of \<open>/bots/789\<close>.
\<close>

theorem credential_not_in_request_witness:
  "validateApiKey (js ''key-one'') = None \<and> validateApiKey (js ''key-two'') = None \<and>
   js ''key-one'' \<noteq> js ''key-two'' \<and>
   snd (retrieveBot (test_client (mock_reply 200 None)) (js ''key-one'') (js ''789''))
     = snd (retrieveBot (test_client (mock_reply 200 None)) (js ''key-two'') (js ''789'')) \<and>
   snd (retrieveBot (test_client (mock_reply 200 None)) (js ''key-two'') (js ''789''))
     = [\<lparr>req_verb = GET, req_url = js ''/bots/789'', req_data = None, req_params = None,
         req_defaults = \<lparr>baseURL = None, timeout = 0, headers = []\<rparr>\<rparr>]"
proof -
  have k1: "validateApiKey (js ''key-one'') = None"
    by (simp add: validateApiKey_def truthy_str_def trim_def is_js_space_def js_def)
  have k2: "validateApiKey (js ''key-two'') = None"
    by (simp add: validateApiKey_def truthy_str_def trim_def is_js_space_def js_def)
  have d: "js ''key-one'' \<noteq> js ''key-two''"
    by (simp add: js_def)
  have r: "snd (retrieveBot (test_client (mock_reply 200 None)) (js ''key-two'') (js ''789''))
     = [\<lparr>req_verb = GET, req_url = js ''/bots/789'', req_data = None, req_params = None,
         req_defaults = \<lparr>baseURL = None, timeout = 0, headers = []\<rparr>\<rparr>]"
  proof -
    have ne: "js ''789'' \<noteq> []"
      by (simp add: js_def)
    have p: "js ''/bots/'' @ js ''789'' = js ''/bots/789''"
      by (simp add: js_def)
    show ?thesis
      by (simp add: retrieveBot_def k2 truthy_str_def ne p after_await_send test_client_def
          mock_instance_def)
  qed
  from credential_not_in_request [OF k1 k2, of mock_url_parses "test_client (mock_reply 200 None)"
      "\<lparr>bot_name = Some (js ''B''), bot_meetingUrl = None, bot_title = None,
        bot_recordingMode = None, bot_joinAt = None, bot_leaveAt = None, bot_metadata = None\<rparr>"
      "js ''789''" "js ''789''" None] k1 k2 d r
  show ?thesis by simp
qed
section \<open>The length limit of an API key name\<close>

text \<open>
  Claim C9, as amended. Let the input have a name \<open>n\<close>. If \<open>n\<close> is longer than 100 code
  units, \<open>createApiKey\<close> rejects with an error of status 400 and dispatches no request; the
  message is \<open>name must not exceed 100 characters\<close> when \<open>userId\<close> is non-empty, and
  \<open>userId is required for API key creation\<close> when \<open>userId\<close> is absent or empty, because
  that check comes first. If \<open>userId\<close> is non-empty and \<open>n\<close> is non-empty and at most 100
  long, no validation failure is raised: one \<open>POST\<close> of \<open>/api-keys\<close> with the input as body
  is dispatched, and the outcome is the transport's.
\<close>

theorem createApiKey_name_limit:
  "kd_name keyData = Some n \<Longrightarrow>
     (100 < length n \<longrightarrow>
        createApiKey c keyData =
          (Inl (Typed (CueMeetError
                  (if truthy_field (kd_userId keyData)
                   then js ''name must not exceed 100 characters''
                   else js ''userId is required for API key creation'')
                  (Some 400) None None)), [])) \<and>
     (truthy_field (kd_userId keyData) \<and> n \<noteq> [] \<and> length n \<le> 100 \<longrightarrow>
        createApiKey c keyData =
          (case adapter (client c)
                  \<lparr>req_verb = POST, req_url = js ''/api-keys'',
                   req_data = Some (ApiKeyBody keyData), req_params = None,
                   req_defaults = defaults (client c)\<rparr> of
             Fulfilled r \<Rightarrow> Inr (resp_data r)
           | Failed e \<Rightarrow> Inl (catch_clause (js ''Failed to create API key'') (interceptor_error e)),
           [\<lparr>req_verb = POST, req_url = js ''/api-keys'',
             req_data = Some (ApiKeyBody keyData), req_params = None,
             req_defaults = defaults (client c)\<rparr>]))"
  by (auto simp add: createApiKey_def truthy_str_def after_await_send)

text \<open>
  The example of the specification, \<open>userId\<close> \<open>u1\<close> and a name of 101 letters \<open>a\<close>, and
  the input of the test suite, \<open>userId\<close> \<open>123\<close> and the name \<open>Test API Key\<close>, on a
  transport that answers 201.
\<close>

theorem createApiKey_name_limit_witness:
  "100 < length (replicate 101 (of_char CHR ''a'' :: 16 word)) \<and>
   createApiKey (test_client (mock_reply 201 None))
     \<lparr>kd_userId = Some (js ''u1''), kd_name = Some (replicate 101 (of_char CHR ''a'')),
      kd_expiresAt = None, kd_permissions = None\<rparr>
     = (Inl (Typed (CueMeetError (js ''name must not exceed 100 characters'')
                      (Some 400) None None)), []) \<and>
   length (js ''Test API Key'') \<le> 100 \<and>
   createApiKey (test_client (mock_reply 201 (Some (JObj [(js ''id'', JStr (js ''456''))]))))
     \<lparr>kd_userId = Some (js ''123''), kd_name = Some (js ''Test API Key''),
      kd_expiresAt = None, kd_permissions = None\<rparr>
     = (Inr (Some (JObj [(js ''id'', JStr (js ''456''))])),
        [\<lparr>req_verb = POST, req_url = js ''/api-keys'',
          req_data = Some (ApiKeyBody
                             \<lparr>kd_userId = Some (js ''123''), kd_name = Some (js ''Test API Key''),
                              kd_expiresAt = None, kd_permissions = None\<rparr>),
          req_params = None,
          req_defaults = \<lparr>baseURL = None, timeout = 0, headers = []\<rparr>\<rparr>])"
proof -
  have u: "truthy_field (Some (js ''u1''))" "truthy_field (Some (js ''123''))"
    by (simp_all add: truthy_field_def truthy_str_def)
  have l: "length (js ''Test API Key'') \<le> 100"
    by (simp add: js_def)
  have long: "createApiKey (test_client (mock_reply 201 None))
     \<lparr>kd_userId = Some (js ''u1''), kd_name = Some (replicate 101 (of_char CHR ''a'')),
      kd_expiresAt = None, kd_permissions = None\<rparr>
     = (Inl (Typed (CueMeetError (js ''name must not exceed 100 characters'')
                      (Some 400) None None)), [])"
    using createApiKey_name_limit
      [of "\<lparr>kd_userId = Some (js ''u1''), kd_name = Some (replicate 101 (of_char CHR ''a'')),
            kd_expiresAt = None, kd_permissions = None\<rparr>"
          "replicate 101 (of_char CHR ''a'')" "test_client (mock_reply 201 None)"] u
    by simp
  have short: "createApiKey (test_client (mock_reply 201 (Some (JObj [(js ''id'', JStr (js ''456''))]))))
     \<lparr>kd_userId = Some (js ''123''), kd_name = Some (js ''Test API Key''),
      kd_expiresAt = None, kd_permissions = None\<rparr>
     = (Inr (Some (JObj [(js ''id'', JStr (js ''456''))])),
        [\<lparr>req_verb = POST, req_url = js ''/api-keys'',
          req_data = Some (ApiKeyBody
                             \<lparr>kd_userId = Some (js ''123''), kd_name = Some (js ''Test API Key''),
                              kd_expiresAt = None, kd_permissions = None\<rparr>),
          req_params = None,
          req_defaults = \<lparr>baseURL = None, timeout = 0, headers = []\<rparr>\<rparr>])"
    using createApiKey_name_limit
      [of "\<lparr>kd_userId = Some (js ''123''), kd_name = Some (js ''Test API Key''),
            kd_expiresAt = None, kd_permissions = None\<rparr>"
          "js ''Test API Key''"
          "test_client (mock_reply 201 (Some (JObj [(js ''id'', JStr (js ''456''))])))"] u l
    by (simp add: test_client_def mock_instance_def mock_reply_def)
  from long short l show ?thesis by simp
qed

text \<open>
  The claim as stated fails for a name of 101 letters with an empty \<open>userId\<close>: the error
  is the one for the missing \<open>userId\<close>, which does not mention the limit.
\<close>

theorem createApiKey_name_limit_counterexample:
  "100 < length (replicate 101 (of_char CHR ''a'' :: 16 word)) \<and>
   createApiKey (test_client (mock_reply 201 None))
     \<lparr>kd_userId = Some (js ''''), kd_name = Some (replicate 101 (of_char CHR ''a'')),
      kd_expiresAt = None, kd_permissions = None\<rparr>
     = (Inl (Typed (CueMeetError (js ''userId is required for API key creation'')
                      (Some 400) None None)), []) \<and>
   js ''userId is required for API key creation'' \<noteq> js ''name must not exceed 100 characters''"
  by (simp add: createApiKey_def truthy_field_def truthy_str_def js_def)

section \<open>Errors that reach the caller\<close>

lemma interceptor_error_server_message:
  "map_of kvs (js ''message'') = Some (JStr m) \<Longrightarrow> m \<noteq> [] \<Longrightarrow>
     interceptor_error
       (Axios \<lparr>ax_message = g,
               ax_response = Some \<lparr>resp_status = st, resp_data = Some (JObj kvs)\<rparr>,
               ax_request = rq\<rparr>)
     = Typed (CueMeetError m (Some st) None None)"
  by (simp add: interceptor_error_def truthy_str_def)

lemma interceptor_error_no_message:
  "get_message d = None \<Longrightarrow>
     interceptor_error
       (Axios \<lparr>ax_message = g, ax_response = Some \<lparr>resp_status = st, resp_data = d\<rparr>,
               ax_request = rq\<rparr>)
     = Typed (CueMeetError g (Some st) None None)"
  by (simp add: interceptor_error_def)

text \<open>
  The seven operations that share the \<open>catch\<close> clause hand a typed error of the transport
  path to the caller as it is.
\<close>

lemma typed_error_rethrown:
  assumes "\<forall>k. op \<noteq> RevokeApiKey k"
    and "valid_call url_parses op"
    and "adapter (client c) (request_of c op) = Failed e"
    and "interceptor_error e = Typed t"
  shows "invoke url_parses stringify c op = (Inl (Typed t), [request_of c op])"
proof (cases op)
  case (CreateUser u)
  with assms show ?thesis
    by (simp add: createUser_def after_await_send endpoint_def catch_clause_Typed)
next
  case (CreateApiKey k)
  with assms show ?thesis
    by (auto simp add: createApiKey_def truthy_str_def after_await_send endpoint_def catch_clause_Typed
        split: option.splits)
next
  case (ListApiKeys u)
  with assms show ?thesis
    by (simp add: listApiKeys_def truthy_str_def after_await_send endpoint_def catch_clause_Typed)
next
  case (RevokeApiKey k)
  with assms show ?thesis by simp
next
  case (CreateBot a b)
  with assms show ?thesis
    by (auto simp add: createBot_def truthy_str_def not_blank_def validateMeetingUrl_valid
        after_await_send endpoint_def catch_clause_Typed split: option.splits)
next
  case (RetrieveBot a b)
  with assms show ?thesis
    by (simp add: retrieveBot_def validateApiKey_not_blank truthy_str_def after_await_send endpoint_def
        catch_clause_Typed)
next
  case (RemoveBotFromCall a b)
  with assms show ?thesis
    by (simp add: removeBotFromCall_def validateApiKey_not_blank truthy_str_def
        after_await_send endpoint_def catch_clause_Typed)
next
  case (RetrieveTranscript a i p)
  with assms show ?thesis
    by (simp add: retrieveTranscript_def validateApiKey_not_blank truthy_str_def
        after_await_send endpoint_def catch_clause_Typed)
qed

lemma show_nat_401: "show_nat 401 = js ''401''"
  by (simp add: show_nat.simps js_def)

lemma show_nat_404: "show_nat 404 = js ''404''"
  by (simp add: show_nat.simps js_def)

text \<open>
  Claim C1 fails on \<open>revokeApiKey\<close>. The server answers 401 with the message
  \<open>Invalid API key\<close>; the interceptor raises the typed error with that message and status
  401; \<open>revokeApiKey\<close> then wraps it into a plain \<open>Error\<close> with a longer message and no
  status, where \<open>listApiKeys\<close> on the same transport rethrows the typed error.
\<close>

theorem revokeApiKey_wraps_typed_error:
  "interceptor_error
     (Axios \<lparr>ax_message = js ''Request failed with status code 401'',
             ax_response = Some \<lparr>resp_status = 401,
                                 resp_data = Some (JObj [(js ''message'', JStr (js ''Invalid API key''))])\<rparr>,
             ax_request = True\<rparr>)
     = Typed (CueMeetError (js ''Invalid API key'') (Some 401) None None) \<and>
   fst (revokeApiKey mock_stringify
          (test_client (mock_reply 401 (Some (JObj [(js ''message'', JStr (js ''Invalid API key''))]))))
          (js ''k1''))
     = Inl (Plain (js ''Failed to revoke API key: k1: Invalid API key'')) \<and>
   fst (listApiKeys
          (test_client (mock_reply 401 (Some (JObj [(js ''message'', JStr (js ''Invalid API key''))]))))
          (js ''k1''))
     = Inl (Typed (CueMeetError (js ''Invalid API key'') (Some 401) None None))"
proof -
  have i: "interceptor_error
     (Axios \<lparr>ax_message = js ''Request failed with status code 401'',
             ax_response = Some \<lparr>resp_status = 401,
                                 resp_data = Some (JObj [(js ''message'', JStr (js ''Invalid API key''))])\<rparr>,
             ax_request = True\<rparr>)
     = Typed (CueMeetError (js ''Invalid API key'') (Some 401) None None)"
    by (rule interceptor_error_server_message) (simp_all add: js_def)
  have m: "js ''Failed to revoke API key: '' @ js ''k1'' @ js '': '' @ js ''Invalid API key''
             = js ''Failed to revoke API key: k1: Invalid API key''"
    by (simp add: js_def)
  have p: "js ''Request failed with status code '' @ js ''401''
             = js ''Request failed with status code 401''"
    by (simp add: js_def)
  have r: "fst (revokeApiKey mock_stringify
          (test_client (mock_reply 401 (Some (JObj [(js ''message'', JStr (js ''Invalid API key''))]))))
          (js ''k1''))
     = Inl (Plain (js ''Failed to revoke API key: k1: Invalid API key''))"
    by (simp add: revokeApiKey_def truthy_str_def after_await_send test_client_def
        mock_instance_def mock_reply_def show_nat_401 p i handleError_def CueMeetError_def m)
  have l: "fst (listApiKeys
          (test_client (mock_reply 401 (Some (JObj [(js ''message'', JStr (js ''Invalid API key''))]))))
          (js ''k1''))
     = Inl (Typed (CueMeetError (js ''Invalid API key'') (Some 401) None None))"
    by (simp add: listApiKeys_def truthy_str_def after_await_send test_client_def
        mock_instance_def mock_reply_def show_nat_401 p i catch_clause_Typed)
  from i r l show ?thesis by simp
qed

text \<open>
  Claim C2 fails on \<open>revokeApiKey\<close>. The server answers 404 with the message
  \<open>not found\<close>: \<open>retrieveBot\<close> rejects with the typed error of status 404 and that message,
  as the specification's example says; \<open>revokeApiKey\<close> rejects with a plain \<open>Error\<close>, which
  has no status.
\<close>

theorem revokeApiKey_loses_status:
  "fst (retrieveBot
          (test_client (mock_reply 404 (Some (JObj [(js ''message'', JStr (js ''not found''))]))))
          (js ''k1'') (js ''missing-id''))
     = Inl (Typed (CueMeetError (js ''not found'') (Some 404) None None)) \<and>
   fst (revokeApiKey mock_stringify
          (test_client (mock_reply 404 (Some (JObj [(js ''message'', JStr (js ''not found''))]))))
          (js ''missing-id''))
     = Inl (Plain (js ''Failed to revoke API key: missing-id: not found''))"
proof -
  have i: "interceptor_error
     (Axios \<lparr>ax_message = js ''Request failed with status code 404'',
             ax_response = Some \<lparr>resp_status = 404,
                                 resp_data = Some (JObj [(js ''message'', JStr (js ''not found''))])\<rparr>,
             ax_request = True\<rparr>)
     = Typed (CueMeetError (js ''not found'') (Some 404) None None)"
    by (rule interceptor_error_server_message) (simp_all add: js_def)
  have m: "js ''Failed to revoke API key: '' @ js ''missing-id'' @ js '': '' @ js ''not found''
             = js ''Failed to revoke API key: missing-id: not found''"
    by (simp add: js_def)
  have p: "js ''Request failed with status code '' @ js ''404''
             = js ''Request failed with status code 404''"
    by (simp add: js_def)
  have ne: "js ''missing-id'' \<noteq> []"
    by (simp add: js_def)
  have k: "validateApiKey (js ''k1'') = None"
    by (simp add: validateApiKey_def truthy_str_def trim_def is_js_space_def js_def)
  have b: "fst (retrieveBot
          (test_client (mock_reply 404 (Some (JObj [(js ''message'', JStr (js ''not found''))]))))
          (js ''k1'') (js ''missing-id''))
     = Inl (Typed (CueMeetError (js ''not found'') (Some 404) None None))"
    by (simp add: retrieveBot_def k truthy_str_def ne after_await_send test_client_def
        mock_instance_def mock_reply_def show_nat_404 p i catch_clause_Typed)
  have r: "fst (revokeApiKey mock_stringify
          (test_client (mock_reply 404 (Some (JObj [(js ''message'', JStr (js ''not found''))]))))
          (js ''missing-id''))
     = Inl (Plain (js ''Failed to revoke API key: missing-id: not found''))"
    by (simp add: revokeApiKey_def truthy_str_def ne after_await_send test_client_def
        mock_instance_def mock_reply_def show_nat_404 p i handleError_def CueMeetError_def m)
  from b r show ?thesis by simp
qed

text \<open>
  Claim C4 fails. \<open>revokeApiKey\<close> with an empty \<open>keyId\<close> rejects with a plain \<open>Error\<close>,
  which has neither kind nor status. \<open>createUser\<close> with an empty email and \<open>createApiKey\<close>
  with a name of 101 letters reject with a \<open>CueMeetError\<close> of status 400 whose code is
  absent, not \<open>VALIDATION_ERROR\<close>. Only the private validators raise a \<open>ValidationError\<close>,
  as \<open>retrieveBot\<close> does for an empty credential.
\<close>

theorem validation_failures_lack_kind:
  "fst (revokeApiKey mock_stringify (test_client (mock_reply 200 None)) (js ''''))
     = Inl (Plain (js ''keyId is required to revoke an API key'')) \<and>
   fst (createUser (test_client (mock_reply 200 None))
          \<lparr>ud_email = Some (js ''''), ud_name = Some (js ''Test User'')\<rparr>)
     = Inl (Typed \<lparr>err_name = CueMeetErrorN,
                   message = js ''email is required for user creation'',
                   status = Some 400, code = None, details = None\<rparr>) \<and>
   fst (createApiKey (test_client (mock_reply 200 None))
          \<lparr>kd_userId = Some (js ''u1''), kd_name = Some (replicate 101 (of_char CHR ''a'')),
           kd_expiresAt = None, kd_permissions = None\<rparr>)
     = Inl (Typed \<lparr>err_name = CueMeetErrorN,
                   message = js ''name must not exceed 100 characters'',
                   status = Some 400, code = None, details = None\<rparr>) \<and>
   fst (retrieveBot (test_client (mock_reply 200 None)) (js '''') (js ''789''))
     = Inl (Typed \<lparr>err_name = ValidationErrorN,
                   message = js ''API key is required and must be a non-empty string'',
                   status = Some 400, code = Some (js ''VALIDATION_ERROR''), details = None\<rparr>)"
  by (simp add: revokeApiKey_def createUser_def createApiKey_def retrieveBot_def
      validateApiKey_def truthy_field_def truthy_str_def catch_clause_Typed
      CueMeetError_def ValidationError_def)

text \<open>
  The private validator \<open>_validateUserData\<close> rejects an email without \<open>@\<close>; no operation
  calls it.
\<close>

lemma validateUserData_email_without_at:
  "validateUserData \<lparr>ud_email = Some (js ''invalid''), ud_name = Some (js ''Test User'')\<rparr>
     = Some (Typed (ValidationError (js ''Valid email is required'') None))"
proof -
  have "\<not> includes_at (js ''invalid'')"
    by (simp add: includes_at_def js_def)
  then show ?thesis
    by (simp add: validateUserData_def)
qed

text \<open>
  Claim C5 fails. The email \<open>invalid\<close> has no \<open>@\<close>, but \<open>createUser\<close> only tests that the
  email and the name are non-empty: the request is dispatched and the call resolves to the
  server's body.
\<close>

theorem createUser_accepts_email_without_at:
  "\<not> includes_at (js ''invalid'') \<and>
   createUser (test_client (mock_reply 201 (Some (JObj [(js ''id'', JStr (js ''123''))]))))
     \<lparr>ud_email = Some (js ''invalid''), ud_name = Some (js ''Test User'')\<rparr>
     = (Inr (Some (JObj [(js ''id'', JStr (js ''123''))])),
        [\<lparr>req_verb = POST, req_url = js ''/auth/register'',
          req_data = Some (UserBody
                             \<lparr>ud_email = Some (js ''invalid''), ud_name = Some (js ''Test User'')\<rparr>),
          req_params = None,
          req_defaults = \<lparr>baseURL = None, timeout = 0, headers = []\<rparr>\<rparr>])"
proof -
  have a: "\<not> includes_at (js ''invalid'')"
    by (simp add: includes_at_def js_def)
  have c: "createUser (test_client (mock_reply 201 (Some (JObj [(js ''id'', JStr (js ''123''))]))))
     \<lparr>ud_email = Some (js ''invalid''), ud_name = Some (js ''Test User'')\<rparr>
     = (Inr (Some (JObj [(js ''id'', JStr (js ''123''))])),
        [\<lparr>req_verb = POST, req_url = js ''/auth/register'',
          req_data = Some (UserBody
                             \<lparr>ud_email = Some (js ''invalid''), ud_name = Some (js ''Test User'')\<rparr>),
          req_params = None,
          req_defaults = \<lparr>baseURL = None, timeout = 0, headers = []\<rparr>\<rparr>])"
    by (simp add: createUser_def truthy_field_def truthy_str_def after_await_send
        test_client_def mock_instance_def mock_reply_def)
  from a c show ?thesis by simp
qed

end
